theory Spec2Isabelle
  imports Main
begin

section \<open>Causal attention of the transformer notebook\<close>

text \<open>
  The development embeds the code cells of \<^verbatim>\<open>transformer.ipynb\<close> that define
  \<^verbatim>\<open>attention_forward\<close> and its integration wrapper
  \<^verbatim>\<open>custom_attention_forward\<close> (with the helpers \<^verbatim>\<open>rotate_half\<close>,
  \<^verbatim>\<open>apply_rotary_pos_emb\<close> and \<^verbatim>\<open>repeat_kv\<close>).
\<close>

subsection \<open>Data model\<close>

text \<open>
  Every Python exception the modelled cells can raise is a value. An \<^verbatim>\<open>assert\<close>
  statement written without a message raises \<^verbatim>\<open>AssertionError()\<close>, which carries
  no text: that is \<open>AssertionError None\<close>.
\<close>

datatype error =
    ValueError
  | AssertionError "string option"
  | NameError string
  | AttributeError string
  | IndexError
  | RuntimeError

text \<open>
  A tensor is its shape together with its elements in row-major order. The element type
  is left open: the cells below never fix it, and the arithmetic of
  \<^verbatim>\<open>apply_rotary_pos_emb\<close> only needs \<open>+\<close>, \<open>*\<close> and unary minus.
\<close>

record 'a tensor =
  shape :: "nat list"
  elems :: "'a list"

text \<open>
  A module-level name of the notebook is bound to a tensor or to some other object
  (a module, a tokenizer, a string: an object without a \<^verbatim>\<open>shape\<close> attribute).
\<close>

datatype 'a pyobj = PyTensor "'a tensor" | PyObject

type_synonym 'a namespace = "string \<rightharpoonup> 'a pyobj"

text \<open>
  The names that the cells of \<^verbatim>\<open>transformer.ipynb\<close> bind at module level, in the
  order of their first binding (imports, assignments, \<^verbatim>\<open>for\<close> targets and
  \<^verbatim>\<open>def\<close>s).
\<close>

definition notebook_names :: "string list" where
  "notebook_names =
     [''torch'', ''LlamaTokenizer'', ''LlamaForCausalLM'', ''tqdm'', ''tokenizer'', ''text'',
      ''tokens_mask'', ''detokenized'', ''tokens'', ''attention_mask'', ''device'', ''model'',
      ''p'', ''embedded_tokens'', ''hidden_states'', ''batch'', ''seq_len'', ''hidden_size'',
      ''position_ids'', ''causal_mask'', ''position_embeddings'', ''l'', ''next_token'',
      ''output'', ''attention_forward'', ''Optional'', ''Tuple'', ''rotate_half'',
      ''apply_rotary_pos_emb'', ''repeat_kv'', ''custom_attention_forward'', ''partial'',
      ''decoded'']"

text \<open>A namespace the notebook can be in binds no other name.\<close>

definition notebook_namespace :: "'a namespace \<Rightarrow> bool" where
  "notebook_namespace globals = (dom globals \<subseteq> set notebook_names)"

subsection \<open>\<^verbatim>\<open>attention_forward\<close>\<close>

text \<open>
  \<^verbatim>\<open>
  def attention_forward(query, key, value, output_projection):
      batch, q_seq_len, num_heads, head_dim = query.shape
      batch, k_seq_len, num_heads, head_dim = key.shape

      assert value.shape == key.shape

      assert q_seq_len <= k_seq_len
      assert query.shape[0] == key.shape[0]
      assert query.shape[2:] == key.shape[2:]

      # TODO {

      # TODO }
      assert v.shape == (batch, q_seq_len, num_heads * head_dim)
      return v
  \<close>
  Unpacking a shape that does not have exactly four entries raises \<^verbatim>\<open>ValueError\<close>.
  The second unpacking rebinds \<open>batch\<close>, \<open>num_heads\<close> and \<open>head_dim\<close> to the key's
  sizes. Nothing stands between the two \<^verbatim>\<open>TODO\<close> markers, so the function assigns
  no \<open>v\<close>: the name is a global of the function and is looked up in the module's
  namespace when the last \<^verbatim>\<open>assert\<close> runs. The namespace is therefore a parameter
  of the model. The projection is never used; its type is left open.
\<close>

definition attention_forward ::
  "'a namespace \<Rightarrow> 'a tensor \<Rightarrow> 'a tensor \<Rightarrow> 'a tensor \<Rightarrow> 'p \<Rightarrow> error + 'a tensor" where
  "attention_forward globals query key value output_projection =
     (case shape query of
        [batch', q_seq_len, num_heads', head_dim'] \<Rightarrow>
          (case shape key of
             [batch, k_seq_len, num_heads, head_dim] \<Rightarrow>
               if shape value \<noteq> shape key then Inl (AssertionError None)
               else if \<not> q_seq_len \<le> k_seq_len then Inl (AssertionError None)
               else if shape query ! 0 \<noteq> shape key ! 0 then Inl (AssertionError None)
               else if drop 2 (shape query) \<noteq> drop 2 (shape key) then Inl (AssertionError None)
               else
                 (case globals ''v'' of
                    None \<Rightarrow> Inl (NameError ''v'')
                  | Some PyObject \<Rightarrow> Inl (AttributeError ''shape'')
                  | Some (PyTensor v) \<Rightarrow>
                      if shape v \<noteq> [batch, q_seq_len, num_heads * head_dim]
                      then Inl (AssertionError None)
                      else Inr v)
           | _ \<Rightarrow> Inl ValueError)
      | _ \<Rightarrow> Inl ValueError)"

text \<open>
  The precondition in the words of the specification: four-dimensional query and key,
  \<open>key.shape == value.shape\<close>, \<open>q_len \<le> k_len\<close>, \<open>query.shape[0] == key.shape[0]\<close>
  and \<open>query.shape[2:] == key.shape[2:]\<close>.
\<close>

definition four_dimensional :: "'a tensor \<Rightarrow> bool" where
  "four_dimensional t = (length (shape t) = 4)"

definition precondition :: "'a tensor \<Rightarrow> 'a tensor \<Rightarrow> 'a tensor \<Rightarrow> bool" where
  "precondition query key value =
     (shape key = shape value \<and> shape query ! 1 \<le> shape key ! 1 \<and>
      shape query ! 0 = shape key ! 0 \<and> drop 2 (shape query) = drop 2 (shape key))"

definition valid_input :: "'a tensor \<Rightarrow> 'a tensor \<Rightarrow> 'a tensor \<Rightarrow> bool" where
  "valid_input query key value =
     (four_dimensional query \<and> four_dimensional key \<and> precondition query key value)"

subsection \<open>Tensor primitives of the library\<close>

text \<open>
  The wrapper and its helpers are written with a handful of \<^verbatim>\<open>torch\<close> operations.
  They are modelled on the row-major representation; where the library raises, the
  model returns the error. A failing step ends the computation, as an exception does.
\<close>

definition try_bind :: "error + 'a \<Rightarrow> ('a \<Rightarrow> error + 'b) \<Rightarrow> error + 'b" where
  "try_bind m f = (case m of Inl e \<Rightarrow> Inl e | Inr x \<Rightarrow> f x)"

text \<open>The multi-index of the \<open>n\<close>-th element of a tensor of a given shape, and back.\<close>

fun unravel :: "nat list \<Rightarrow> nat \<Rightarrow> nat list" where
  "unravel [] n = []"
| "unravel (d # ds) n = (n div prod_list ds) mod d # unravel ds n"

fun ravel :: "nat list \<Rightarrow> nat list \<Rightarrow> nat" where
  "ravel (d # ds) (i # idx) = i * prod_list ds + ravel ds idx"
| "ravel _ _ = 0"

text \<open>
  Reading the elements at a list of positions. A position outside the list contributes
  nothing, so no read is left unspecified.
\<close>

definition gather :: "'a list \<Rightarrow> nat list \<Rightarrow> 'a list" where
  "gather xs ks = concat (map (\<lambda>k. take 1 (drop k xs)) ks)"

definition swap_entries :: "nat \<Rightarrow> nat \<Rightarrow> 'b list \<Rightarrow> 'b list" where
  "swap_entries i j xs = (xs[i := xs ! j])[j := xs ! i]"

text \<open>\<^verbatim>\<open>t.transpose(d0, d1)\<close>, for dimensions counted from the front.\<close>

definition transpose_dims :: "nat \<Rightarrow> nat \<Rightarrow> 'a tensor \<Rightarrow> error + 'a tensor" where
  "transpose_dims d0 d1 t =
     (if d0 < length (shape t) \<and> d1 < length (shape t) then
        (let s = swap_entries d0 d1 (shape t)
         in Inr \<lparr>shape = s,
                 elems = gather (elems t)
                   (map (\<lambda>n. ravel (shape t) (swap_entries d0 d1 (unravel s n)))
                      [0..<prod_list s])\<rparr>)
      else Inl IndexError)"

text \<open>
  \<^verbatim>\<open>t.view(*sizes)\<close>, where one size may be \<open>-1\<close> and is then inferred from the
  number of elements: the library refuses a second \<open>-1\<close>, any other negative size, a
  product of the given sizes that does not divide the number of elements, and an
  inferred size next to a product of zero.
\<close>

definition view :: "int list \<Rightarrow> 'a tensor \<Rightarrow> error + 'a tensor" where
  "view sizes t =
     (let n = prod_list (shape t);
          known = filter (\<lambda>s. s \<noteq> - 1) sizes;
          newsize = nat (prod_list known)
      in if list_ex (\<lambda>s. s < - 1) sizes then Inl RuntimeError
         else if length known = length sizes then
           (if newsize = n then Inr (t\<lparr>shape := map nat sizes\<rparr>) else Inl RuntimeError)
         else if length known + 1 = length sizes \<and> 0 < newsize \<and> n mod newsize = 0 then
           Inr (t\<lparr>shape := map (\<lambda>s. if s = - 1 then n div newsize else nat s) sizes\<rparr>)
         else Inl RuntimeError)"

text \<open>\<^verbatim>\<open>t.reshape(*sizes)\<close> with every size given.\<close>

definition reshape :: "nat list \<Rightarrow> 'a tensor \<Rightarrow> error + 'a tensor" where
  "reshape sizes t =
     (if prod_list sizes = prod_list (shape t) then Inr (t\<lparr>shape := sizes\<rparr>)
      else Inl RuntimeError)"

text \<open>\<^verbatim>\<open>t.unsqueeze(d)\<close>: a new dimension of size one in front of dimension \<open>d\<close>.\<close>

definition unsqueeze :: "nat \<Rightarrow> 'a tensor \<Rightarrow> error + 'a tensor" where
  "unsqueeze d t =
     (if d \<le> length (shape t) then Inr (t\<lparr>shape := take d (shape t) @ [1] @ drop d (shape t)\<rparr>)
      else Inl IndexError)"

text \<open>
  Broadcasting: shapes are aligned at their last dimension; two sizes agree when they
  are equal or one of them is one.
\<close>

fun broadcast_shapes_rev :: "nat list \<Rightarrow> nat list \<Rightarrow> nat list option" where
  "broadcast_shapes_rev [] ys = Some ys"
| "broadcast_shapes_rev xs [] = Some xs"
| "broadcast_shapes_rev (x # xs) (y # ys) =
     (if x = y \<or> y = 1 then map_option ((#) x) (broadcast_shapes_rev xs ys)
      else if x = 1 then map_option ((#) y) (broadcast_shapes_rev xs ys)
      else None)"

definition broadcast_shapes :: "nat list \<Rightarrow> nat list \<Rightarrow> nat list option" where
  "broadcast_shapes a b = map_option rev (broadcast_shapes_rev (rev a) (rev b))"

definition broadcast_index :: "nat list \<Rightarrow> nat list \<Rightarrow> nat list" where
  "broadcast_index s idx =
     map2 (\<lambda>d i. if d = 1 then 0 else i) s (drop (length idx - length s) idx)"

definition expand_elems :: "nat list \<Rightarrow> 'a tensor \<Rightarrow> 'a list" where
  "expand_elems target t =
     gather (elems t)
       (map (\<lambda>n. ravel (shape t) (broadcast_index (shape t) (unravel target n)))
          [0..<prod_list target])"

text \<open>\<^verbatim>\<open>t.expand(*sizes)\<close> with every size given.\<close>

definition expand :: "nat list \<Rightarrow> 'a tensor \<Rightarrow> error + 'a tensor" where
  "expand sizes t =
     (if length (shape t) \<le> length sizes \<and>
         list_all (\<lambda>(d, s). d = s \<or> d = 1) (zip (rev (shape t)) (rev sizes))
      then Inr \<lparr>shape = sizes, elems = expand_elems sizes t\<rparr>
      else Inl RuntimeError)"

definition elementwise :: "('a \<Rightarrow> 'a \<Rightarrow> 'a) \<Rightarrow> 'a tensor \<Rightarrow> 'a tensor \<Rightarrow> error + 'a tensor" where
  "elementwise f a b =
     (case broadcast_shapes (shape a) (shape b) of
        None \<Rightarrow> Inl RuntimeError
      | Some s \<Rightarrow> Inr \<lparr>shape = s, elems = map2 f (expand_elems s a) (expand_elems s b)\<rparr>)"

definition tensor_mul :: "'a::times tensor \<Rightarrow> 'a tensor \<Rightarrow> error + 'a tensor" where
  "tensor_mul a b = elementwise (*) a b"

definition tensor_add :: "'a::plus tensor \<Rightarrow> 'a tensor \<Rightarrow> error + 'a tensor" where
  "tensor_add a b = elementwise (+) a b"

definition tensor_neg :: "'a::uminus tensor \<Rightarrow> 'a tensor" where
  "tensor_neg t = t\<lparr>elems := map uminus (elems t)\<rparr>"

text \<open>The rows along the last dimension of a tensor that has one.\<close>

definition last_dim_rows :: "'a tensor \<Rightarrow> 'a list list" where
  "last_dim_rows t =
     (let d = last (shape t)
      in map (\<lambda>r. take d (drop (r * d) (elems t))) [0..<prod_list (butlast (shape t))])"

text \<open>\<^verbatim>\<open>x[..., :h]\<close> and \<^verbatim>\<open>x[..., h:]\<close>.\<close>

definition last_dim_upto :: "nat \<Rightarrow> 'a tensor \<Rightarrow> 'a tensor" where
  "last_dim_upto h x =
     \<lparr>shape = butlast (shape x) @ [min h (last (shape x))],
      elems = concat (map (take h) (last_dim_rows x))\<rparr>"

definition last_dim_from :: "nat \<Rightarrow> 'a tensor \<Rightarrow> 'a tensor" where
  "last_dim_from h x =
     \<lparr>shape = butlast (shape x) @ [last (shape x) - h],
      elems = concat (map (drop h) (last_dim_rows x))\<rparr>"

text \<open>\<^verbatim>\<open>torch.cat((a, b), dim=-1)\<close>.\<close>

definition cat_last :: "'a tensor \<Rightarrow> 'a tensor \<Rightarrow> error + 'a tensor" where
  "cat_last a b =
     (if shape a = [] then Inl RuntimeError
      else if shape b = [] then Inl RuntimeError
      else if butlast (shape a) = butlast (shape b) then
        Inr \<lparr>shape = butlast (shape a) @ [last (shape a) + last (shape b)],
             elems = concat (map2 (@) (last_dim_rows a) (last_dim_rows b))\<rparr>
      else Inl RuntimeError)"

subsection \<open>The helpers of the integration cell\<close>

text \<open>
  \<^verbatim>\<open>
  def rotate_half(x):
      x1 = x[..., : x.shape[-1] // 2]
      x2 = x[..., x.shape[-1] // 2 :]
      return torch.cat((-x2, x1), dim=-1)
  \<close>
  \<^verbatim>\<open>x.shape[-1]\<close> raises \<^verbatim>\<open>IndexError\<close> on a tensor without dimensions.
\<close>

definition rotate_half :: "'a::uminus tensor \<Rightarrow> error + 'a tensor" where
  "rotate_half x =
     (if shape x = [] then Inl IndexError
      else
        (let x1 = last_dim_upto (last (shape x) div 2) x;
             x2 = last_dim_from (last (shape x) div 2) x
         in cat_last (tensor_neg x2) x1))"

text \<open>
  \<^verbatim>\<open>
  def apply_rotary_pos_emb(q, k, cos, sin, position_ids=None, unsqueeze_dim=1):
      cos = cos.unsqueeze(unsqueeze_dim)
      sin = sin.unsqueeze(unsqueeze_dim)
      q_embed = (q * cos) + (rotate_half(q) * sin)
      k_embed = (k * cos) + (rotate_half(k) * sin)
      return q_embed, k_embed
  \<close>
  The steps are taken in Python's order of evaluation, so that the first failing one
  decides the error.
\<close>

definition rotary_embed ::
  "'a::{plus,times,uminus} tensor \<Rightarrow> 'a tensor \<Rightarrow> 'a tensor \<Rightarrow> error + 'a tensor" where
  "rotary_embed x cos' sin' =
     try_bind (tensor_mul x cos') (\<lambda>x_cos.
     try_bind (rotate_half x) (\<lambda>x_rot.
     try_bind (tensor_mul x_rot sin') (\<lambda>x_rot_sin.
     tensor_add x_cos x_rot_sin)))"

definition apply_rotary_pos_emb ::
  "'a::{plus,times,uminus} tensor \<Rightarrow> 'a tensor \<Rightarrow> 'a tensor \<Rightarrow> 'a tensor \<Rightarrow>
   int tensor option \<Rightarrow> nat \<Rightarrow> error + 'a tensor \<times> 'a tensor" where
  "apply_rotary_pos_emb q k cos' sin' position_ids unsqueeze_dim =
     try_bind (unsqueeze unsqueeze_dim cos') (\<lambda>cos'.
     try_bind (unsqueeze unsqueeze_dim sin') (\<lambda>sin'.
     try_bind (rotary_embed q cos' sin') (\<lambda>q_embed.
     try_bind (rotary_embed k cos' sin') (\<lambda>k_embed.
     Inr (q_embed, k_embed)))))"

text \<open>
  \<^verbatim>\<open>
  def repeat_kv(hidden_states, n_rep):
      batch, num_key_value_heads, slen, head_dim = hidden_states.shape
      if n_rep == 1:
          return hidden_states
      hidden_states = hidden_states[:, :, None, :, :].expand(
          batch, num_key_value_heads, n_rep, slen, head_dim)
      return hidden_states.reshape(batch, num_key_value_heads * n_rep, slen, head_dim)
  \<close>
\<close>

definition repeat_kv :: "'a tensor \<Rightarrow> nat \<Rightarrow> error + 'a tensor" where
  "repeat_kv hidden_states n_rep =
     (case shape hidden_states of
        [batch, num_key_value_heads, slen, head_dim] \<Rightarrow>
          if n_rep = 1 then Inr hidden_states
          else
            try_bind (unsqueeze 2 hidden_states) (\<lambda>hidden_states.
            try_bind (expand [batch, num_key_value_heads, n_rep, slen, head_dim] hidden_states)
              (\<lambda>hidden_states.
            reshape [batch, num_key_value_heads * n_rep, slen, head_dim] hidden_states))
      | _ \<Rightarrow> Inl ValueError)"

subsection \<open>\<^verbatim>\<open>custom_attention_forward\<close>\<close>

text \<open>
  The attention layer \<^verbatim>\<open>self\<close> and the key-value cache are objects of the
  surrounding library. The layer is the record of the attributes the wrapper reads: its
  four linear maps and its rotary embedding are functions that may raise. The cache is a
  state with its \<^verbatim>\<open>update\<close> method, which returns the key and value states to
  attend over and the state it leaves behind. \<^verbatim>\<open>cache_kwargs\<close> is the dictionary
  with the keys \<^verbatim>\<open>"sin"\<close>, \<^verbatim>\<open>"cos"\<close> and \<^verbatim>\<open>"cache_position"\<close>.
\<close>

record 'a cache_kwargs =
  kwargs_sin :: "'a tensor"
  kwargs_cos :: "'a tensor"
  kwargs_cache_position :: "int tensor option"

record ('a, 'c) cache =
  cache_state :: 'c
  cache_update ::
    "'c \<Rightarrow> 'a tensor \<Rightarrow> 'a tensor \<Rightarrow> nat \<Rightarrow> 'a cache_kwargs \<Rightarrow>
     error + ('a tensor \<times> 'a tensor) \<times> 'c"

record 'a llama_attention =
  q_proj :: "'a tensor \<Rightarrow> error + 'a tensor"
  k_proj :: "'a tensor \<Rightarrow> error + 'a tensor"
  v_proj :: "'a tensor \<Rightarrow> error + 'a tensor"
  o_proj :: "'a tensor \<Rightarrow> error + 'a tensor"
  rotary_emb :: "'a tensor \<Rightarrow> int tensor option \<Rightarrow> error + 'a tensor \<times> 'a tensor"
  head_dim :: nat
  layer_idx :: nat
  num_key_value_groups :: nat

text \<open>
  \<^verbatim>\<open>
  def custom_attention_forward(self, hidden_states, attention_mask=None,
          position_ids=None, past_key_value=None, output_attentions=False,
          use_cache=False, cache_position=None, position_embeddings=None, **kwargs):
      bsz, q_len, _ = hidden_states.size()

      query_states = self.q_proj(hidden_states)
      key_states = self.k_proj(hidden_states)
      value_states = self.v_proj(hidden_states)

      query_states = query_states.view(bsz, q_len, -1, self.head_dim).transpose(1, 2)
      key_states = key_states.view(bsz, q_len, -1, self.head_dim).transpose(1, 2)
      value_states = value_states.view(bsz, q_len, -1, self.head_dim).transpose(1, 2)

      if position_embeddings is None:
          cos, sin = self.rotary_emb(value_states, position_ids)
      else:
          cos, sin = position_embeddings
      query_states, key_states = apply_rotary_pos_emb(query_states, key_states, cos, sin)

      if past_key_value is not None:
          cache_kwargs = {"sin": sin, "cos": cos, "cache_position": cache_position}
          key_states, value_states = past_key_value.update(
              key_states, value_states, self.layer_idx, cache_kwargs)

      key_states = repeat_kv(key_states, self.num_key_value_groups)
      value_states = repeat_kv(value_states, self.num_key_value_groups)

      query_states = query_states.transpose(1, 2)
      key_states = key_states.transpose(1, 2)
      value_states = value_states.transpose(1, 2)

      attn_output = attention_forward(query=query_states, key=key_states,
          value=value_states, output_projection=self.o_proj)

      return attn_output, None, past_key_value
  \<close>
  The name \<^verbatim>\<open>attention_forward\<close> is resolved when the call is made, so the model
  takes the function called as its first argument; the notebook's own instance follows.
  The cache returned is the object passed in, in the state its \<^verbatim>\<open>update\<close> left.
  A state change of the cache that an exception leaves behind, and the contents of
  \<^verbatim>\<open>**kwargs\<close>, which the body never reads, are not modelled.
\<close>

definition split_heads :: "nat \<Rightarrow> nat \<Rightarrow> nat \<Rightarrow> 'a tensor \<Rightarrow> error + 'a tensor" where
  "split_heads bsz q_len width states =
     try_bind (view [int bsz, int q_len, - 1, int width] states) (transpose_dims 1 2)"

definition custom_attention_forward_with ::
  "('a::{plus,times,uminus} tensor \<Rightarrow> 'a tensor \<Rightarrow> 'a tensor \<Rightarrow>
      ('a tensor \<Rightarrow> error + 'a tensor) \<Rightarrow> error + 'a tensor) \<Rightarrow>
   'a llama_attention \<Rightarrow> 'a tensor \<Rightarrow> 'm option \<Rightarrow> int tensor option \<Rightarrow>
   ('a, 'c) cache option \<Rightarrow> bool \<Rightarrow> bool \<Rightarrow> int tensor option \<Rightarrow>
   ('a tensor \<times> 'a tensor) option \<Rightarrow>
   error + 'a tensor \<times> 'w option \<times> ('a, 'c) cache option" where
  "custom_attention_forward_with attention self hidden_states attention_mask position_ids
       past_key_value output_attentions use_cache cache_position position_embeddings =
     (case shape hidden_states of
        [bsz, q_len, hidden] \<Rightarrow>
          try_bind (q_proj self hidden_states) (\<lambda>query_states.
          try_bind (k_proj self hidden_states) (\<lambda>key_states.
          try_bind (v_proj self hidden_states) (\<lambda>value_states.
          try_bind (split_heads bsz q_len (head_dim self) query_states) (\<lambda>query_states.
          try_bind (split_heads bsz q_len (head_dim self) key_states) (\<lambda>key_states.
          try_bind (split_heads bsz q_len (head_dim self) value_states) (\<lambda>value_states.
          try_bind
            (case position_embeddings of
               None \<Rightarrow> rotary_emb self value_states position_ids
             | Some cos_sin \<Rightarrow> Inr cos_sin) (\<lambda>cos_sin.
          try_bind
            (apply_rotary_pos_emb query_states key_states (fst cos_sin) (snd cos_sin) None 1)
            (\<lambda>embedded.
          try_bind
            (case past_key_value of
               None \<Rightarrow> Inr ((snd embedded, value_states), None)
             | Some c \<Rightarrow>
                 try_bind
                   (cache_update c (cache_state c) (snd embedded) value_states (layer_idx self)
                      \<lparr>kwargs_sin = snd cos_sin, kwargs_cos = fst cos_sin,
                       kwargs_cache_position = cache_position\<rparr>)
                   (\<lambda>updated. Inr (fst updated, Some (c\<lparr>cache_state := snd updated\<rparr>))))
            (\<lambda>cached.
          try_bind (repeat_kv (fst (fst cached)) (num_key_value_groups self)) (\<lambda>key_states.
          try_bind (repeat_kv (snd (fst cached)) (num_key_value_groups self)) (\<lambda>value_states.
          try_bind (transpose_dims 1 2 (fst embedded)) (\<lambda>query_states.
          try_bind (transpose_dims 1 2 key_states) (\<lambda>key_states.
          try_bind (transpose_dims 1 2 value_states) (\<lambda>value_states.
          try_bind (attention query_states key_states value_states (o_proj self))
            (\<lambda>attn_output.
          Inr (attn_output, None, snd cached))))))))))))))))
      | _ \<Rightarrow> Inl ValueError)"

text \<open>The wrapper as the notebook runs it: it calls the committed \<^verbatim>\<open>attention_forward\<close>.\<close>

definition custom_attention_forward ::
  "'a::{plus,times,uminus} namespace \<Rightarrow> 'a llama_attention \<Rightarrow> 'a tensor \<Rightarrow> 'm option \<Rightarrow>
   int tensor option \<Rightarrow> ('a, 'c) cache option \<Rightarrow> bool \<Rightarrow> bool \<Rightarrow> int tensor option \<Rightarrow>
   ('a tensor \<times> 'a tensor) option \<Rightarrow>
   error + 'a tensor \<times> 'w option \<times> ('a, 'c) cache option" where
  "custom_attention_forward globals =
     custom_attention_forward_with (attention_forward globals)"

subsection \<open>Concrete objects\<close>

text \<open>
  The namespace after the import cell and the two cells of definitions have run: every
  name they bind is bound to an object that is not a tensor; nothing binds \<open>v\<close>.
\<close>

definition definitions_namespace :: "'a namespace" where
  "definitions_namespace =
     map_of (map (\<lambda>name. (name, PyObject))
       [''torch'', ''LlamaTokenizer'', ''LlamaForCausalLM'', ''tqdm'', ''tokenizer'', ''text'',
        ''tokens_mask'', ''detokenized'', ''attention_forward'', ''Optional'', ''Tuple'',
        ''rotate_half'', ''apply_rotary_pos_emb'', ''repeat_kv'', ''custom_attention_forward''])"

text \<open>The tensor of a given shape whose elements are all \<open>x\<close>.\<close>

definition full :: "nat list \<Rightarrow> 'a \<Rightarrow> 'a tensor" where
  "full sizes x = \<lparr>shape = sizes, elems = replicate (prod_list sizes) x\<rparr>"

text \<open>
  The specification's scenario: batch 1, sequence length 3, one head of dimension 2,
  with the rows \<open>[1, 0]\<close>, \<open>[0, 1]\<close> and \<open>[1, 1]\<close>.
\<close>

definition scenario_tensor :: "int tensor" where
  "scenario_tensor = \<lparr>shape = [1, 3, 1, 2], elems = [1, 0, 0, 1, 1, 1]\<rparr>"

text \<open>
  A layer with two-dimensional heads whose linear maps are the identity and whose rotary
  embedding is the rotation by the angle zero (cosine one, sine zero).
\<close>

definition plain_layer :: "int llama_attention" where
  "plain_layer =
     \<lparr>q_proj = Inr, k_proj = Inr, v_proj = Inr, o_proj = Inr,
      rotary_emb = (\<lambda>x position_ids.
        case shape x of
          [bsz, heads, q_len, width] \<Rightarrow> Inr (full [bsz, q_len, width] 1, full [bsz, q_len, width] 0)
        | _ \<Rightarrow> Inl RuntimeError),
      head_dim = 2, layer_idx = 0, num_key_value_groups = 1\<rparr>"

text \<open>Hidden states for batch 1, two positions and width 4 (two heads).\<close>

definition example_hidden_states :: "int tensor" where
  "example_hidden_states = \<lparr>shape = [1, 2, 4], elems = [1, 2, 3, 4, 5, 6, 7, 8]\<rparr>"

text \<open>
  A cache of fixed length in the manner of a static cache: its \<^verbatim>\<open>update\<close> writes at
  the positions \<^verbatim>\<open>cache_kwargs["cache_position"]\<close> and raises \<^verbatim>\<open>IndexError\<close> when
  one of them lies outside the cache. Its state is the number of updates it has seen; the
  states it returns are the ones it was given.
\<close>

definition bounded_update ::
  "nat \<Rightarrow> nat \<Rightarrow> int tensor \<Rightarrow> int tensor \<Rightarrow> nat \<Rightarrow> int cache_kwargs \<Rightarrow>
   error + (int tensor \<times> int tensor) \<times> nat" where
  "bounded_update max_cache_len seen key_states value_states layer kwargs =
     (case kwargs_cache_position kwargs of
        None \<Rightarrow> Inr ((key_states, value_states), Suc seen)
      | Some positions \<Rightarrow>
          if list_all (\<lambda>i. 0 \<le> i \<and> i < int max_cache_len) (elems positions)
          then Inr ((key_states, value_states), Suc seen)
          else Inl IndexError)"

definition bounded_cache :: "nat \<Rightarrow> (int, nat) cache" where
  "bounded_cache max_cache_len =
     \<lparr>cache_state = 0, cache_update = bounded_update max_cache_len\<rparr>"

subsection \<open>Helper lemmas\<close>

lemma length_four_cases:
  assumes "length xs = 4"
  obtains a b c d where "xs = [a, b, c, d]"
proof -
  from assms obtain a ys where xs: "xs = a # ys" and "length ys = 3"
    by (cases xs) auto
  then obtain b zs where ys: "ys = b # zs" and "length zs = 2"
    by (cases ys) auto
  then obtain c ws where zs: "zs = c # ws" and "length ws = 1"
    by (cases zs) auto
  then obtain d where "ws = [d]"
    by (cases ws) auto
  with xs ys zs that show thesis by simp
qed

lemma v_not_a_notebook_name: "''v'' \<notin> set notebook_names"
  by (simp add: notebook_names_def)

lemma notebook_namespace_v: "notebook_namespace globals \<Longrightarrow> globals ''v'' = None"
  using v_not_a_notebook_name by (auto simp: notebook_namespace_def)

lemma attention_forward_shapes:
  assumes "shape query = [a, b, c, d]" and "shape key = [a', b', c', d']"
  shows "attention_forward globals query key value proj =
           (if shape value \<noteq> [a', b', c', d'] then Inl (AssertionError None)
            else if \<not> b \<le> b' then Inl (AssertionError None)
            else if a \<noteq> a' then Inl (AssertionError None)
            else if [c, d] \<noteq> [c', d'] then Inl (AssertionError None)
            else
              (case globals ''v'' of
                 None \<Rightarrow> Inl (NameError ''v'')
               | Some PyObject \<Rightarrow> Inl (AttributeError ''shape'')
               | Some (PyTensor v) \<Rightarrow>
                   if shape v \<noteq> [a', b, c' * d'] then Inl (AssertionError None)
                   else Inr v))"
  unfolding attention_forward_def assms by simp

lemma attention_forward_valid:
  assumes "valid_input query key value"
  shows "attention_forward globals query key value proj =
           (case globals ''v'' of
              None \<Rightarrow> Inl (NameError ''v'')
            | Some PyObject \<Rightarrow> Inl (AttributeError ''shape'')
            | Some (PyTensor v) \<Rightarrow>
                if shape v \<noteq> [shape key ! 0, shape query ! 1, shape key ! 2 * shape key ! 3]
                then Inl (AssertionError None)
                else Inr v)"
proof -
  from assms have q4: "length (shape query) = 4" and k4: "length (shape key) = 4"
    and pre: "precondition query key value"
    by (simp_all add: valid_input_def four_dimensional_def)
  from q4 obtain a b c d where q: "shape query = [a, b, c, d]"
    by (rule length_four_cases)
  from k4 obtain a' b' c' d' where k: "shape key = [a', b', c', d']"
    by (rule length_four_cases)
  from pre have "shape value = [a', b', c', d']" "b \<le> b'" "a = a'" "c = c'" "d = d'"
    unfolding precondition_def q k by simp_all
  then show ?thesis
    unfolding attention_forward_shapes [OF q k] q k
    by (simp split: option.splits pyobj.splits)
qed

lemma definitions_namespace_notebook: "notebook_namespace definitions_namespace"
  by (auto simp: notebook_namespace_def definitions_namespace_def notebook_names_def
      dom_map_of_conv_image_fst)

lemma map_sum_Inl_iff: "map_sum id f x = Inl e \<longleftrightarrow> x = Inl e"
  by (cases x) auto

lemma try_bind_Inr_iff: "try_bind m f = Inr r \<longleftrightarrow> (\<exists>x. m = Inr x \<and> f x = Inr r)"
  by (cases m) (auto simp: try_bind_def)

section \<open>Claims\<close>

text \<open>
  C9. For every input that passes the precondition asserts, the committed
  \<^verbatim>\<open>attention_forward\<close> returns no value: the body between the two
  \<^verbatim>\<open>TODO\<close> markers is empty, \<open>v\<close> is never assigned (and no cell of the notebook
  binds it at module level), so the call ends in the final shape assert with
  \<^verbatim>\<open>NameError\<close> for the name \<open>v\<close>.
\<close>

theorem attention_forward_unbound_v:
  assumes "notebook_namespace globals" and "valid_input query key value"
  shows "attention_forward globals query key value proj = Inl (NameError ''v'')"
  by (simp add: attention_forward_valid [OF assms(2)] notebook_namespace_v [OF assms(1)])

text \<open>
  Witness: in the namespace that binds only \<open>tokens\<close>, on all-zero tensors of shape
  \<open>(1, 2, 1, 2)\<close> and \<open>(1, 3, 1, 2)\<close>, both hypotheses hold and the call raises.
\<close>

theorem attention_forward_unbound_v_witness:
  "notebook_namespace [''tokens'' \<mapsto> PyTensor \<lparr>shape = [1, 4], elems = [1, 2, 3, 4 :: int]\<rparr>]
   \<and> valid_input \<lparr>shape = [1, 2, 1, 2], elems = replicate 4 (0::int)\<rparr>
        \<lparr>shape = [1, 3, 1, 2], elems = replicate 6 0\<rparr>
        \<lparr>shape = [1, 3, 1, 2], elems = replicate 6 0\<rparr>
   \<and> attention_forward [''tokens'' \<mapsto> PyTensor \<lparr>shape = [1, 4], elems = [1, 2, 3, 4 :: int]\<rparr>]
        \<lparr>shape = [1, 2, 1, 2], elems = replicate 4 (0::int)\<rparr>
        \<lparr>shape = [1, 3, 1, 2], elems = replicate 6 0\<rparr>
        \<lparr>shape = [1, 3, 1, 2], elems = replicate 6 0\<rparr> () = Inl (NameError ''v'')"
proof -
  have ns: "notebook_namespace
      [''tokens'' \<mapsto> PyTensor \<lparr>shape = [1, 4], elems = [1, 2, 3, 4 :: int]\<rparr>]"
    by (simp add: notebook_namespace_def notebook_names_def)
  have ok: "valid_input \<lparr>shape = [1, 2, 1, 2], elems = replicate 4 (0::int)\<rparr>
        \<lparr>shape = [1, 3, 1, 2], elems = replicate 6 0\<rparr>
        \<lparr>shape = [1, 3, 1, 2], elems = replicate 6 0\<rparr>"
    by (simp add: valid_input_def four_dimensional_def precondition_def)
  from ns ok attention_forward_unbound_v [OF ns ok, of "()"] show ?thesis
    by blast
qed

text \<open>
  C6, as amended. A four-dimensional query and key that violate the precondition make
  \<^verbatim>\<open>attention_forward\<close> stop at the first failing \<^verbatim>\<open>assert\<close>, before the final
  assert on \<open>v\<close> is reached (whatever the namespace binds). The error is
  \<^verbatim>\<open>AssertionError\<close> without any message: the asserts are written without one.
\<close>

theorem attention_forward_precondition_violated:
  assumes "four_dimensional query" and "four_dimensional key"
    and "\<not> precondition query key value"
  shows "attention_forward globals query key value proj = Inl (AssertionError None)"
proof -
  from assms(1) obtain a b c d where q: "shape query = [a, b, c, d]"
    unfolding four_dimensional_def by (rule length_four_cases)
  from assms(2) obtain a' b' c' d' where k: "shape key = [a', b', c', d']"
    unfolding four_dimensional_def by (rule length_four_cases)
  from assms(3) have
    "shape value \<noteq> [a', b', c', d'] \<or> \<not> b \<le> b' \<or> a \<noteq> a' \<or> [c, d] \<noteq> [c', d']"
    unfolding precondition_def q k by auto
  then show ?thesis
    unfolding attention_forward_shapes [OF q k] by auto
qed

theorem attention_forward_precondition_violated_witness:
  "four_dimensional (full [2, 1, 1, 1] (0::int)) \<and> four_dimensional (full [3, 1, 1, 1] (0::int))
   \<and> \<not> precondition (full [2, 1, 1, 1] (0::int)) (full [3, 1, 1, 1] 0) (full [3, 1, 1, 1] 0)
   \<and> attention_forward definitions_namespace
        (full [2, 1, 1, 1] (0::int)) (full [3, 1, 1, 1] 0) (full [3, 1, 1, 1] 0) ()
      = Inl (AssertionError None)"
proof -
  have q: "four_dimensional (full [2, 1, 1, 1] (0::int))"
    and k: "four_dimensional (full [3, 1, 1, 1] (0::int))"
    by (simp_all add: four_dimensional_def full_def)
  have bad: "\<not> precondition (full [2, 1, 1, 1] (0::int)) (full [3, 1, 1, 1] 0) (full [3, 1, 1, 1] 0)"
    by (simp add: precondition_def full_def)
  from q k bad
    attention_forward_precondition_violated [OF q k bad, of definitions_namespace "()"]
  show ?thesis by blast
qed

text \<open>
  C6 as stated fails: the error does not describe the mismatch. A query whose batch size
  differs from the key's (2 against 3, all else in order) and a query longer than the key
  (2 against 1, all else in order) end in the same error value, which carries no message.
\<close>

theorem attention_forward_error_names_no_dimension:
  "attention_forward definitions_namespace
     (full [2, 1, 1, 1] (0::int)) (full [3, 1, 1, 1] 0) (full [3, 1, 1, 1] 0) ()
     = Inl (AssertionError None)
   \<and> attention_forward definitions_namespace
     (full [1, 2, 1, 1] (0::int)) (full [1, 1, 1, 1] 0) (full [1, 1, 1, 1] 0) ()
     = Inl (AssertionError None)"
  by (simp add: attention_forward_def full_def)


text \<open>
  C1. The claim asks for the raw score, the dot product over the head dimension scaled by
  \<open>1/sqrt(head_dim)\<close>. On the specification's own check (head dimension 64, query and
  key all ones, so that the score would be \<open>64/8 = 8\<close>) the committed function computes
  no score: the call ends with \<^verbatim>\<open>NameError\<close>.
\<close>

theorem attention_forward_head_dim_64:
  "attention_forward definitions_namespace
     (full [1, 1, 1, 64] (1::int)) (full [1, 1, 1, 64] 1) (full [1, 1, 1, 64] 1)
     (Inr :: int tensor \<Rightarrow> error + int tensor)
   = Inl (NameError ''v'')"
  by (simp add: attention_forward_def definitions_namespace_def full_def)

text \<open>
  C2. The claim asks for weight zero at every key position after the query's. On the
  specification's scenario (sequence length 3, so that the weights at \<open>(q, k)\<close> =
  \<open>(0, 1)\<close>, \<open>(0, 2)\<close> and \<open>(1, 2)\<close> would be zero) the committed function computes no
  weight: the call ends with \<^verbatim>\<open>NameError\<close>.
\<close>

theorem attention_forward_scenario:
  "attention_forward definitions_namespace scenario_tensor scenario_tensor scenario_tensor
     (Inr :: int tensor \<Rightarrow> error + int tensor)
   = Inl (NameError ''v'')"
  by (simp add: attention_forward_def definitions_namespace_def scenario_tensor_def)

text \<open>
  C3. The claim asks for rows of weights that a stable softmax normalises to sum one. With
  two query and two key positions the committed function normalises nothing: the call
  ends with \<^verbatim>\<open>NameError\<close>.
\<close>

theorem attention_forward_two_positions:
  "attention_forward definitions_namespace
     \<lparr>shape = [1, 2, 1, 1], elems = [1, 2 :: int]\<rparr>
     \<lparr>shape = [1, 2, 1, 1], elems = [1, 2]\<rparr>
     \<lparr>shape = [1, 2, 1, 1], elems = [1, 2]\<rparr>
     (Inr :: int tensor \<Rightarrow> error + int tensor)
   = Inl (NameError ''v'')"
  by (simp add: attention_forward_def definitions_namespace_def)

text \<open>
  C4. The claim asks for the aggregate \<open>output[b,q,h,:] = \<Sum>k. weight[b,h,q,k] * value[b,k,h,:]\<close>.
  With one query position, two key positions and two heads the committed function
  aggregates nothing: the call ends with \<^verbatim>\<open>NameError\<close>.
\<close>

theorem attention_forward_one_query_two_keys:
  "attention_forward definitions_namespace
     (full [1, 1, 2, 1] (1::int))
     \<lparr>shape = [1, 2, 2, 1], elems = [1, 2, 3, 4]\<rparr>
     \<lparr>shape = [1, 2, 2, 1], elems = [5, 6, 7, 8]\<rparr>
     (Inr :: int tensor \<Rightarrow> error + int tensor)
   = Inl (NameError ''v'')"
  by (simp add: attention_forward_def definitions_namespace_def full_def)

text \<open>
  C5. The claim asks for a result of shape \<open>(batch, q_len, heads * head_dim)\<close>. For batch
  2, three positions and four heads of dimension 5 (a result of shape \<open>(2, 3, 20)\<close>) the
  committed function has no result: the call ends with \<^verbatim>\<open>NameError\<close>.
\<close>

theorem attention_forward_no_result_shape:
  "attention_forward definitions_namespace
     (full [2, 3, 4, 5] (0::int)) (full [2, 3, 4, 5] 0) (full [2, 3, 4, 5] 0)
     (Inr :: int tensor \<Rightarrow> error + int tensor)
   = Inl (NameError ''v'')"
  by (simp add: attention_forward_def definitions_namespace_def full_def)

text \<open>
  C8. The claim asks, for a single token, for weight one and the projected value as the
  output. With \<open>q_len = k_len = 1\<close> and the value \<open>[3, 4]\<close> (and the identity as the
  projection, so that the output would be \<open>[3, 4]\<close> in shape \<open>(1, 1, 2)\<close>) the committed
  function returns nothing: the call ends with \<^verbatim>\<open>NameError\<close>.
\<close>

theorem attention_forward_single_token:
  "attention_forward definitions_namespace
     (full [1, 1, 1, 2] (1::int)) (full [1, 1, 1, 2] 1)
     \<lparr>shape = [1, 1, 1, 2], elems = [3, 4]\<rparr>
     (Inr :: int tensor \<Rightarrow> error + int tensor)
   = Inl (NameError ''v'')"
  by (simp add: attention_forward_def definitions_namespace_def full_def)

text \<open>
  C10, as amended. Whatever attention function the wrapper calls:
  \<^item> its outcome does not depend on \<^verbatim>\<open>attention_mask\<close> or \<^verbatim>\<open>output_attentions\<close>;
  \<^item> without a cache (\<^verbatim>\<open>past_key_value=None\<close>) it does not depend on
    \<^verbatim>\<open>cache_position\<close> either (with a cache, \<^verbatim>\<open>cache_position\<close> is handed to the
    cache's \<^verbatim>\<open>update\<close>);
  \<^item> whenever it returns, the second component of the triple is \<^verbatim>\<open>None\<close> and the first
    is what the attention function returned for the layer's output projection.
\<close>

theorem custom_attention_forward_arguments:
  "custom_attention_forward_with attention self hidden_states attention_mask position_ids
       past_key_value output_attentions use_cache cache_position position_embeddings
   = custom_attention_forward_with attention self hidden_states attention_mask' position_ids
       past_key_value output_attentions' use_cache cache_position position_embeddings
   \<and> custom_attention_forward_with attention self hidden_states attention_mask position_ids
       None output_attentions use_cache cache_position position_embeddings
   = custom_attention_forward_with attention self hidden_states attention_mask position_ids
       None output_attentions use_cache cache_position' position_embeddings
   \<and> (\<forall>r. custom_attention_forward_with attention self hidden_states attention_mask
         position_ids past_key_value output_attentions use_cache cache_position
         position_embeddings = Inr r \<longrightarrow>
       fst (snd r) = None \<and>
       (\<exists>query key value. attention query key value (o_proj self) = Inr (fst r)))"
proof (intro conjI allI impI)
  fix r
  assume "custom_attention_forward_with attention self hidden_states attention_mask
         position_ids past_key_value output_attentions use_cache cache_position
         position_embeddings = Inr r"
  then show "fst (snd r) = None"
    by (auto simp: custom_attention_forward_with_def try_bind_Inr_iff split: list.splits)
next
  fix r
  assume "custom_attention_forward_with attention self hidden_states attention_mask
         position_ids past_key_value output_attentions use_cache cache_position
         position_embeddings = Inr r"
  then show "\<exists>query key value. attention query key value (o_proj self) = Inr (fst r)"
    by (clarsimp simp: custom_attention_forward_with_def try_bind_Inr_iff split: list.splits)
      blast
qed (simp_all add: custom_attention_forward_with_def cong: list.case_cong)

text \<open>
  Witness: the wrapper does return when the function it calls does. Here that function is
  the committed \<^verbatim>\<open>attention_forward\<close> in a namespace in which a tensor of the
  expected shape has been bound to \<open>v\<close> by hand.
\<close>

theorem custom_attention_forward_arguments_witness:
  "custom_attention_forward_with
      (attention_forward (definitions_namespace(''v'' \<mapsto> PyTensor (full [1, 2, 4] 7))))
      plain_layer example_hidden_states (None :: int tensor option) None
      (None :: (int, nat) cache option) True False None None
    = Inr (full [1, 2, 4] 7, (None :: int tensor option), None)
   \<and> (\<exists>query key value.
        attention_forward (definitions_namespace(''v'' \<mapsto> PyTensor (full [1, 2, 4] 7)))
          query key value (o_proj plain_layer) = Inr (full [1, 2, 4] (7::int)))"
  (is "?call = Inr ?triple \<and> ?called")
proof -
  have "map_sum id (\<lambda>r. (fst r, fst (snd r), Option.is_none (snd (snd r)))) ?call
        = Inr (full [1, 2, 4] 7, None, True)"
    by code_simp
  then have returned: "?call = Inr ?triple"
    by (cases ?call) (auto simp: Option.is_none_def)
  from custom_attention_forward_arguments
    [of "attention_forward (definitions_namespace(''v'' \<mapsto> PyTensor (full [1, 2, 4] 7)))"
      plain_layer example_hidden_states None None None True False None None]
  have "\<forall>r. ?call = Inr r \<longrightarrow> fst (snd r) = None \<and>
      (\<exists>query key value.
        attention_forward (definitions_namespace(''v'' \<mapsto> PyTensor (full [1, 2, 4] 7)))
          query key value (o_proj plain_layer) = Inr (fst r))"
    by blast
  with returned have ?called by fastforce
  with returned show ?thesis by simp
qed

text \<open>
  C10 as stated fails twice. As the notebook runs it, the wrapper returns no triple: the
  call below, with \<^verbatim>\<open>output_attentions=True\<close>, ends with the \<^verbatim>\<open>NameError\<close> of
  \<^verbatim>\<open>attention_forward\<close>. And \<^verbatim>\<open>cache_position\<close> is not ignored: with a cache of
  length 4, the positions \<open>[0, 1]\<close> lead to that \<^verbatim>\<open>NameError\<close>, the positions
  \<open>[4, 5]\<close> to the \<^verbatim>\<open>IndexError\<close> of the cache's \<^verbatim>\<open>update\<close>.
\<close>

theorem custom_attention_forward_raises_and_reads_cache_position:
  "(custom_attention_forward definitions_namespace plain_layer example_hidden_states
      (None :: int tensor option) None (None :: (int, nat) cache option) True False None None
    :: error + int tensor \<times> int tensor option \<times> (int, nat) cache option)
    = Inl (NameError ''v'')
   \<and> (custom_attention_forward definitions_namespace plain_layer example_hidden_states
      (None :: int tensor option) None (Some (bounded_cache 4)) False False
      (Some \<lparr>shape = [2], elems = [0, 1]\<rparr>) None
    :: error + int tensor \<times> int tensor option \<times> (int, nat) cache option)
    = Inl (NameError ''v'')
   \<and> (custom_attention_forward definitions_namespace plain_layer example_hidden_states
      (None :: int tensor option) None (Some (bounded_cache 4)) False False
      (Some \<lparr>shape = [2], elems = [4, 5]\<rparr>) None
    :: error + int tensor \<times> int tensor option \<times> (int, nat) cache option)
    = Inl IndexError"
proof (intro conjI)
  show "(custom_attention_forward definitions_namespace plain_layer example_hidden_states
      (None :: int tensor option) None (None :: (int, nat) cache option) True False None None
    :: error + int tensor \<times> int tensor option \<times> (int, nat) cache option)
    = Inl (NameError ''v'')"
    by (rule iffD1 [OF map_sum_Inl_iff [where f = "\<lambda>r. ()"]]) code_simp
  show "(custom_attention_forward definitions_namespace plain_layer example_hidden_states
      (None :: int tensor option) None (Some (bounded_cache 4)) False False
      (Some \<lparr>shape = [2], elems = [0, 1]\<rparr>) None
    :: error + int tensor \<times> int tensor option \<times> (int, nat) cache option)
    = Inl (NameError ''v'')"
    by (rule iffD1 [OF map_sum_Inl_iff [where f = "\<lambda>r. ()"]]) code_simp
  show "(custom_attention_forward definitions_namespace plain_layer example_hidden_states
      (None :: int tensor option) None (Some (bounded_cache 4)) False False
      (Some \<lparr>shape = [2], elems = [4, 5]\<rparr>) None
    :: error + int tensor \<times> int tensor option \<times> (int, nat) cache option)
    = Inl IndexError"
    by (rule iffD1 [OF map_sum_Inl_iff [where f = "\<lambda>r. ()"]]) code_simp
qed

end
